theory Spec2Isabelle
  imports Complex_Main "HOL-Library.AList"
begin

section \<open>The configuration model \<open>reGenBridgeData\<close>\<close>

text \<open>
  Source: \<^verbatim>\<open>horde_worker_regen/bridge_data/data_model.py\<close>.

  The class \<^verbatim>\<open>reGenBridgeData\<close> extends \<^verbatim>\<open>CombinedHordeBridgeData\<close> of the SDK.  The base
  class is declared outside this repository; of its fields only the ones that the code
  below reads or writes are listed, with the types the code uses them at.
\<close>

record CombinedHordeBridgeData =
  max_threads :: int
  queue_size :: int
  extra_slow_worker :: bool
  models_folder_parent :: string
  horde_url :: string
  max_lora_cache_size :: int
  dreamer_worker_name :: string

text \<open>The loader object kept in the private attribute \<^verbatim>\<open>_yaml_loader\<close>.\<close>

datatype YAML = YAML

text \<open>
  An entry of \<^verbatim>\<open>custom_models\<close> is a dict; it is an association list here, and
  \<^verbatim>\<open>model.get(k)\<close> is \<open>map_of model k\<close>.
\<close>

type_synonym custom_model = "(string \<times> string) list"

record reGenBridgeData = CombinedHordeBridgeData +
  private_loaded_from_env_vars :: bool
  disable_terminal_ui :: bool
  safety_on_gpu :: bool
  private_yaml_loader :: "YAML option"
  cycle_process_on_model_change :: bool
  CIVIT_API_TOKEN :: "string option"
  unload_models_from_vram_often :: bool
  process_timeout :: int
  post_process_timeout :: int
  download_timeout :: int
  preload_timeout :: int
  inference_step_timeout :: int
  minutes_allowed_without_jobs :: int
  horde_model_stickiness :: real
  high_memory_mode :: bool
  very_high_memory_mode :: bool
  high_performance_mode :: bool
  moderate_performance_mode :: bool
  very_fast_disk_mode :: bool
  post_process_job_overlap :: bool
  capture_kudos_training_data :: bool
  kudos_training_data_file :: "string option"
  exit_on_unhandled_faults :: bool
  purge_loras_on_download :: bool
  remove_maintenance_on_init :: bool
  load_large_models :: bool
  custom_models :: "custom_model list"
  limited_console_messages :: bool

subsection \<open>Logging\<close>

text \<open>
  The validator and the methods log through loguru.  A log call is recorded as its level,
  its message text with \<open>{}\<close> at every interpolated expression, and the values
  interpolated there.
\<close>

datatype log_level = DEBUG | INFO | WARNING | ERROR

datatype log_arg = ArgInt int | ArgStr string | ArgModel custom_model

type_synonym log_record = "log_level \<times> string \<times> log_arg list"

subsection \<open>The model validator\<close>

text \<open>\<^verbatim>\<open>self.model_fields["process_timeout"].default\<close>, from \<^verbatim>\<open>Field(default=300)\<close>.\<close>

definition default_process_timeout :: int where
  "default_process_timeout = 300"

text \<open>Lines 124 to 128: the queue of a worker with two or more threads holds at most 3.\<close>

definition limit_queue_size :: "reGenBridgeData \<Rightarrow> reGenBridgeData \<times> log_record list" where
  "limit_queue_size self =
     (if max_threads self \<ge> 2 \<and> queue_size self > 3
      then (self\<lparr>queue_size := 3\<rparr>,
            [(WARNING, ''The queue_size value has been set to 3 because the max_threads value is 2.'', [])])
      else (self, []))"

text \<open>
  Lines 130 to 155.  The message is formatted before the assignment, so it carries the
  value \<^verbatim>\<open>process_timeout\<close> had on entry.
\<close>

definition limit_process_timeout :: "reGenBridgeData \<Rightarrow> reGenBridgeData \<times> log_record list" where
  "limit_process_timeout self =
     (if high_performance_mode self then
        (let process_timeout_changed_message =
               (''High performance mode is enabled, so the process_timeout value has ''
                @ ''been set to 1/3 of the default value. The new value is {}.'',
                [ArgInt (process_timeout self)])
         in (self\<lparr>process_timeout := default_process_timeout div 3\<rparr>,
             [(if process_timeout self = default_process_timeout then DEBUG else WARNING,
               process_timeout_changed_message)]))
      else if moderate_performance_mode self then
        (let process_timeout_changed_message =
               (''Moderate performance mode is enabled, so the process_timeout value has ''
                @ ''been set to 1/2 of the default value. The new value is {}.'',
                [ArgInt (process_timeout self)])
         in (self\<lparr>process_timeout := default_process_timeout div 2\<rparr>,
             [(if process_timeout self = default_process_timeout then DEBUG else WARNING,
               process_timeout_changed_message)]))
      else (self, []))"

text \<open>
  Lines 157 to 195.  Each inner \<^verbatim>\<open>if\<close> tests one field and assigns that same field, so
  the seven of them do not depend on one another; they are kept in the order of the source
  for the log.
\<close>

definition extra_slow_worker_overrides ::
  "reGenBridgeData \<Rightarrow> reGenBridgeData \<times> log_record list" where
  "extra_slow_worker_overrides self =
     (if extra_slow_worker self then
        (self\<lparr>high_performance_mode := (if high_performance_mode self then False else high_performance_mode self),
              moderate_performance_mode := (if moderate_performance_mode self then False else moderate_performance_mode self),
              high_memory_mode := (if high_memory_mode self then False else high_memory_mode self),
              very_high_memory_mode := (if very_high_memory_mode self then False else very_high_memory_mode self),
              queue_size := (if queue_size self > 0 then 0 else queue_size self),
              max_threads := (if max_threads self > 1 then 1 else max_threads self),
              preload_timeout := (if preload_timeout self < 120 then 120 else preload_timeout self)\<rparr>,
         (if high_performance_mode self
          then [(WARNING, ''Extra slow worker is enabled, so the high_performance_mode value has been set to False.'', [])]
          else [])
         @ (if moderate_performance_mode self
            then [(WARNING, ''Extra slow worker is enabled, so the moderate_performance_mode value has been set to False.'', [])]
            else [])
         @ (if high_memory_mode self
            then [(WARNING, ''Extra slow worker is enabled, so the high_memory_mode value has been set to False.'', [])]
            else [])
         @ (if very_high_memory_mode self
            then [(WARNING, ''Extra slow worker is enabled, so the very_high_memory_mode value has been set to False.'', [])]
            else [])
         @ (if queue_size self > 0
            then [(WARNING, ''Extra slow worker is enabled, so the queue_size value has been set to 0. ''
                            @ ''This behavior may change in the future.'', [])]
            else [])
         @ (if max_threads self > 1
            then [(WARNING, ''Extra slow worker is enabled, so the max_threads value has been set to 1. ''
                            @ ''This behavior may change in the future.'', [])]
            else [])
         @ (if preload_timeout self < 120
            then [(WARNING, ''Extra slow worker is enabled, so the preload_timeout value has been set to 120. ''
                            @ ''This behavior may change in the future.'', [])]
            else []))
      else (self, []))"

text \<open>Lines 197 to 201.\<close>

definition very_high_memory_implies_high ::
  "reGenBridgeData \<Rightarrow> reGenBridgeData \<times> log_record list" where
  "very_high_memory_implies_high self =
     (if very_high_memory_mode self \<and> \<not> high_memory_mode self
      then (self\<lparr>high_memory_mode := True\<rparr>,
            [(DEBUG, ''Very high memory mode is enabled, so the high_memory_mode value has been set to True.'', [])])
      else (self, []))"

text \<open>Lines 203 to 225: three advisory warnings, and one assignment.\<close>

definition high_memory_checks :: "reGenBridgeData \<Rightarrow> reGenBridgeData \<times> log_record list" where
  "high_memory_checks self =
     (if high_memory_mode self then
        (self\<lparr>cycle_process_on_model_change :=
                 (if cycle_process_on_model_change self then False else cycle_process_on_model_change self)\<rparr>,
         (if max_threads self = 1
          then [(WARNING, ''High memory mode is enabled, you should consider setting max_threads to 2.'', [])]
          else [])
         @ (if queue_size self = 0
            then [(WARNING, ''High memory mode is enabled, you should consider setting queue_size to 1 or higher. ''
                            @ ''Increasing this value increases system memory usage. See the bridgeData_template.yaml for more ''
                            @ ''information.'', [])]
            else [])
         @ (if unload_models_from_vram_often self
            then [(WARNING, ''High memory mode is enabled, you should consider setting unload_models_from_vram_often to False.'', [])]
            else [])
         @ (if cycle_process_on_model_change self
            then [(WARNING, ''High memory mode is enabled, so the cycle_process_on_model_change value has been set to False.'', [])]
            else []))
      else (self, []))"

text \<open>
  \<^verbatim>\<open>validate_performance_modes\<close> (lines 117 to 227): the five blocks in sequence on the
  same object.  The result is the object returned and the log lines written, in order.
\<close>

definition validate_performance_modes ::
  "reGenBridgeData \<Rightarrow> reGenBridgeData \<times> log_record list" where
  "validate_performance_modes self =
     (let (s1, l1) = limit_queue_size self;
          (s2, l2) = limit_process_timeout s1;
          (s3, l3) = extra_slow_worker_overrides s2;
          (s4, l4) = very_high_memory_implies_high s3;
          (s5, l5) = high_memory_checks s4
      in (s5, l1 @ l2 @ l3 @ l4 @ l5))"


text \<open>A configuration on which no block of the validator fires is returned as it is.\<close>

definition settled :: "reGenBridgeData \<Rightarrow> bool" where
  "settled r =
     ((max_threads r \<ge> 2 \<longrightarrow> queue_size r \<le> 3)
      \<and> (high_performance_mode r \<longrightarrow> process_timeout r = 100)
      \<and> (\<not> high_performance_mode r \<and> moderate_performance_mode r \<longrightarrow> process_timeout r = 150)
      \<and> (extra_slow_worker r \<longrightarrow>
           \<not> high_performance_mode r \<and> \<not> moderate_performance_mode r \<and> \<not> high_memory_mode r
           \<and> \<not> very_high_memory_mode r \<and> queue_size r \<le> 0 \<and> max_threads r \<le> 1
           \<and> preload_timeout r \<ge> 120)
      \<and> (very_high_memory_mode r \<longrightarrow> high_memory_mode r)
      \<and> (high_memory_mode r \<longrightarrow> \<not> cycle_process_on_model_change r))"

subsection \<open>Construction\<close>

text \<open>
  Field defaults, from the \<^verbatim>\<open>Field(default=...)\<close> declarations (lines 23 to 115).  The
  inherited fields take their values from the base class, and \<^verbatim>\<open>download_timeout\<close>
  defaults to \<^verbatim>\<open>TOTAL_LORA_DOWNLOAD_TIMEOUT + 1\<close>, a constant of \<^verbatim>\<open>horde_worker_regen.consts\<close>
  that is passed in.
\<close>

definition model_defaults :: "CombinedHordeBridgeData \<Rightarrow> int \<Rightarrow> reGenBridgeData" where
  "model_defaults base TOTAL_LORA_DOWNLOAD_TIMEOUT =
     \<lparr>max_threads = max_threads base,
      queue_size = queue_size base,
      extra_slow_worker = extra_slow_worker base,
      models_folder_parent = models_folder_parent base,
      horde_url = horde_url base,
      max_lora_cache_size = max_lora_cache_size base,
      dreamer_worker_name = dreamer_worker_name base,
      private_loaded_from_env_vars = False,
      disable_terminal_ui = True,
      safety_on_gpu = False,
      private_yaml_loader = None,
      cycle_process_on_model_change = False,
      CIVIT_API_TOKEN = None,
      unload_models_from_vram_often = True,
      process_timeout = 300,
      post_process_timeout = 60,
      download_timeout = TOTAL_LORA_DOWNLOAD_TIMEOUT + 1,
      preload_timeout = 80,
      inference_step_timeout = 15,
      minutes_allowed_without_jobs = 30,
      horde_model_stickiness = 0,
      high_memory_mode = True,
      very_high_memory_mode = False,
      high_performance_mode = True,
      moderate_performance_mode = False,
      very_fast_disk_mode = False,
      post_process_job_overlap = False,
      capture_kudos_training_data = False,
      kudos_training_data_file = None,
      exit_on_unhandled_faults = False,
      purge_loras_on_download = False,
      remove_maintenance_on_init = False,
      load_large_models = True,
      custom_models = [],
      limited_console_messages = False\<rparr>"

text \<open>
  The bounds of the \<^verbatim>\<open>Field\<close> declarations (\<^verbatim>\<open>ge\<close>, \<^verbatim>\<open>le\<close>, \<^verbatim>\<open>lt\<close>), in declaration
  order.  A field out of bounds is reported under the name the input uses for it.
\<close>

definition field_errors :: "reGenBridgeData \<Rightarrow> string list" where
  "field_errors v =
     (if post_process_timeout v \<ge> 15 then [] else [''post_process_timeout''])
     @ (if preload_timeout v \<ge> 15 then [] else [''preload_timeout''])
     @ (if inference_step_timeout v \<ge> 15 \<and> inference_step_timeout v \<le> 30
        then [] else [''inference_step_timeout''])
     @ (if minutes_allowed_without_jobs v \<ge> 0 \<and> minutes_allowed_without_jobs v < 60 * 60
        then [] else [''minutes_allowed_without_jobs''])
     @ (if horde_model_stickiness v \<le> 1 \<and> horde_model_stickiness v \<ge> 0
        then [] else [''model_stickiness''])"

text \<open>The process environment (\<^verbatim>\<open>os.environ\<close>).\<close>

type_synonym environ = "string \<rightharpoonup> string"

text \<open>
  \<^verbatim>\<open>os.getenv(k)\<close> used as a condition: true when the variable is set and not empty.
\<close>

definition getenv_truthy :: "environ \<Rightarrow> string \<Rightarrow> bool" where
  "getenv_truthy env k = (case env k of None \<Rightarrow> False | Some v \<Rightarrow> v \<noteq> [])"

text \<open>\<^verbatim>\<open>validate_dreamer_worker_name\<close> (lines 229 to 240).\<close>

definition validate_dreamer_worker_name :: "environ \<Rightarrow> string \<Rightarrow> string \<times> log_record list" where
  "validate_dreamer_worker_name env v =
     (case env ''AIWORKER_DREAMER_WORKER_NAME'' of
        None \<Rightarrow> (v, [])
      | Some AIWORKER_DREAMER_WORKER_NAME \<Rightarrow>
          if AIWORKER_DREAMER_WORKER_NAME \<noteq> []
          then (AIWORKER_DREAMER_WORKER_NAME,
                [(WARNING, ''AIWORKER_DREAMER_WORKER_NAME environment variable is set. This will override the value for ''
                           @ ''`dreamer_worker_name` in the config file.'', [])])
          else (v, []))"

datatype validation_error = ValidationError "string list"

text \<open>
  Construction of the model from field values \<open>v\<close> (the input, with the defaults for what
  it leaves out).  The fields are checked first, the inherited ones by the base class,
  whose checks are the parameter \<open>inherited_errors\<close>; all failures are raised together as
  one \<^verbatim>\<open>ValidationError\<close>.  The model validator runs only on fields that passed.  A
  failed construction returns the error alone, without the log lines written before it.
\<close>

definition model_validate ::
  "(reGenBridgeData \<Rightarrow> string list) \<Rightarrow> environ \<Rightarrow> reGenBridgeData \<Rightarrow>
     validation_error + reGenBridgeData \<times> log_record list" where
  "model_validate inherited_errors env v =
     (let errors = inherited_errors v @ field_errors v;
          (name, l0) = validate_dreamer_worker_name env (dreamer_worker_name v)
      in if errors \<noteq> [] then Inl (ValidationError errors)
         else (let (self, l1) = validate_performance_modes (v\<lparr>dreamer_worker_name := name\<rparr>)
               in Inr (self, l0 @ l1)))"

subsection \<open>Methods with effects on the process and the file system\<close>

text \<open>Python's \<^verbatim>\<open>str\<close> on an int.\<close>

fun str_nat :: "nat \<Rightarrow> string" where
  "str_nat n = (if n < 10 then [''0123456789'' ! n] else str_nat (n div 10) @ [''0123456789'' ! (n mod 10)])"

declare str_nat.simps [simp del]

definition str_int :: "int \<Rightarrow> string" where
  "str_int i = (if i < 0 then CHR ''-'' # str_nat (nat (- i)) else str_nat (nat i))"

text \<open>An entry of the dict written to \<^verbatim>\<open>custom_models.json\<close> (lines 262 to 267).\<close>

datatype custom_model_reference = CustomModelReference
  (ref_name: string) (ref_baseline: string) (ref_type: string) (ref_config_files: "string list")

datatype file_content =
    JsonDump "(string \<times> custom_model_reference) list"
  | YamlDump reGenBridgeData

text \<open>
  What the methods see of the operating system: the environment, the working directory,
  the files by path, and the paths at which opening for writing or removing fails.
\<close>

record os_state =
  environ :: environ
  cwd :: string
  files :: "string \<rightharpoonup> file_content"
  denied :: "string set"

datatype py_exception =
    SystemExit | KeyboardInterrupt | GeneratorExit
  | BaseExceptionSubclass string
  | OSError
  | ExceptionSubclass string

text \<open>
  \<^verbatim>\<open>issubclass(type(e), Exception)\<close>: of the built-in exceptions, only \<^verbatim>\<open>SystemExit\<close>,
  \<^verbatim>\<open>KeyboardInterrupt\<close> and \<^verbatim>\<open>GeneratorExit\<close> derive from \<^verbatim>\<open>BaseException\<close> directly.
\<close>

fun is_Exception :: "py_exception \<Rightarrow> bool" where
  "is_Exception SystemExit = False"
| "is_Exception KeyboardInterrupt = False"
| "is_Exception GeneratorExit = False"
| "is_Exception (BaseExceptionSubclass _) = False"
| "is_Exception OSError = True"
| "is_Exception (ExceptionSubclass _) = True"

datatype 'a outcome = Returns 'a | Raises py_exception

text \<open>
  The loop of \<^verbatim>\<open>prepare_custom_models\<close> (lines 251 to 267).  The dict keeps insertion order
  and a repeated name overwrites the earlier entry in place, as \<open>AList.update\<close> does.
\<close>

fun collect_custom_models ::
  "custom_model list \<Rightarrow> (string \<times> custom_model_reference) list \<times> log_record list \<Rightarrow>
     (string \<times> custom_model_reference) list \<times> log_record list" where
  "collect_custom_models [] acc = acc"
| "collect_custom_models (model # rest) (custom_models_dict, l) =
     (case map_of model ''name'' of
        None \<Rightarrow> collect_custom_models rest (custom_models_dict,
          l @ [(WARNING, ''Model name not specified for custom model entry {}. Skipping'', [ArgModel model])])
      | Some name \<Rightarrow>
          if name = [] then collect_custom_models rest (custom_models_dict,
            l @ [(WARNING, ''Model name not specified for custom model entry {}. Skipping'', [ArgModel model])])
          else (case map_of model ''baseline'' of
            None \<Rightarrow> collect_custom_models rest (custom_models_dict,
              l @ [(WARNING, ''Model baseline not specified for custom model entry {}. Skipping'', [ArgModel model])])
          | Some baseline \<Rightarrow>
              if baseline = [] then collect_custom_models rest (custom_models_dict,
                l @ [(WARNING, ''Model baseline not specified for custom model entry {}. Skipping'', [ArgModel model])])
              else (case map_of model ''filepath'' of
                None \<Rightarrow> collect_custom_models rest (custom_models_dict,
                  l @ [(WARNING, ''Model filepath not specified for custom model entry {}. Skipping'', [ArgModel model])])
              | Some filepath \<Rightarrow>
                  if filepath = [] then collect_custom_models rest (custom_models_dict,
                    l @ [(WARNING, ''Model filepath not specified for custom model entry {}. Skipping'', [ArgModel model])])
                  else collect_custom_models rest
                    (AList.update name (CustomModelReference name baseline ''ckpt'' [filepath]) custom_models_dict,
                     l))))"

text \<open>
  \<^verbatim>\<open>prepare_custom_models\<close> (lines 242 to 275).  The result is what the call does (returns,
  or raises from \<^verbatim>\<open>open\<close> or \<^verbatim>\<open>os.remove\<close>), the object, the operating system state and
  the log.
\<close>

definition prepare_custom_models ::
  "reGenBridgeData \<Rightarrow> os_state \<Rightarrow> unit outcome \<times> reGenBridgeData \<times> os_state \<times> log_record list" where
  "prepare_custom_models self os =
     (if getenv_truthy (environ os) ''HORDELIB_CUSTOM_MODELS'' then
        (Returns (), self, os,
         [(INFO, ''HORDELIB_CUSTOM_MODELS already set to '{}. Doing nothing for custom models.'',
           [ArgStr (case environ os ''HORDELIB_CUSTOM_MODELS'' of Some v \<Rightarrow> v | None \<Rightarrow> [])])])
      else
        (let (custom_models_dict, l) = collect_custom_models (custom_models self) ([], []);
             path = cwd os @ ''/custom_models.json''
         in if length custom_models_dict > 0 then
              (if path \<in> denied os then (Raises OSError, self, os, l)
               else (Returns (), self,
                     os\<lparr>files := (files os)(path \<mapsto> JsonDump custom_models_dict),
                        environ := (environ os)(''HORDELIB_CUSTOM_MODELS'' \<mapsto> path)\<rparr>, l))
            else if files os path \<noteq> None then
              (if path \<in> denied os then (Raises OSError, self, os, l)
               else (Returns (), self,
                     os\<lparr>files := (files os)(path := None),
                        environ := (environ os)(''HORDELIB_CUSTOM_MODELS'' \<mapsto> path)\<rparr>, l))
            else (Returns (), self,
                  os\<lparr>environ := (environ os)(''HORDELIB_CUSTOM_MODELS'' \<mapsto> path)\<rparr>, l)))"

text \<open>\<^verbatim>\<open>load_custom_models\<close> (lines 277 to 283), a static method.\<close>

definition load_custom_models :: "os_state \<Rightarrow> os_state \<times> log_record list" where
  "load_custom_models os =
     (let path = cwd os @ ''/custom_models.json''
      in if \<not> getenv_truthy (environ os) ''HORDELIB_CUSTOM_MODELS'' \<and> files os path \<noteq> None
         then (os\<lparr>environ := (environ os)(''HORDELIB_CUSTOM_MODELS'' \<mapsto> path)\<rparr>,
               [(DEBUG, ''HORDELIB_CUSTOM_MODELS: {}/custom_models.json'', [ArgStr (cwd os)])])
         else (os, []))"

text \<open>
  \<^verbatim>\<open>load_env_vars\<close> (lines 285 to 317), one block of the source after the other.  In the
  second block the inner test \<^verbatim>\<open>os.environ.get("AI_HORDE_URL") is None\<close> differs from the
  outer truth test when the variable is set to the empty string.
\<close>

definition load_env_vars ::
  "reGenBridgeData \<Rightarrow> os_state \<Rightarrow> reGenBridgeData \<times> os_state \<times> log_record list" where
  "load_env_vars self os =
     (let e0 = environ os;
          e1 = (if models_folder_parent self \<noteq> [] \<and> e0 ''AIWORKER_CACHE_HOME'' = None
                then e0(''AIWORKER_CACHE_HOME'' \<mapsto> models_folder_parent self) else e0);
          (e2, l2) =
            (if horde_url self \<noteq> [] then
               (if getenv_truthy e1 ''AI_HORDE_URL'' then
                  (e1, [(WARNING, ''AI_HORDE_URL environment variable already set. This will override the value for `horde_url` in ''
                                  @ ''the config file.'', [])])
                else
                  (let l = (if getenv_truthy e1 ''AI_HORDE_DEV_URL''
                            then [(WARNING, ''AI_HORDE_DEV_URL environment variable already set. This will override the value for ''
                                            @ ''`horde_url` in the config file.'', [])]
                            else [])
                   in if e1 ''AI_HORDE_URL'' = None
                      then (e1(''AI_HORDE_URL'' \<mapsto> horde_url self), l)
                      else (e1, l @ [(WARNING, ''AI_HORDE_URL environment variable already set. This will override the value for `horde_url` ''
                                               @ ''in the config file.'', [])])))
             else (e1, []));
          e3 = (case CIVIT_API_TOKEN self of None \<Rightarrow> e2 | Some token \<Rightarrow> e2(''CIVIT_API_TOKEN'' \<mapsto> token));
          e4 = (if max_lora_cache_size self \<noteq> 0 \<and> e3 ''AIWORKER_LORA_CACHE_SIZE'' = None
                then e3(''AIWORKER_LORA_CACHE_SIZE'' \<mapsto> str_int (max_lora_cache_size self * 1024)) else e3);
          e5 = (if load_large_models self then e4(''AI_HORDE_MODEL_META_LARGE_MODELS'' \<mapsto> ''1'') else e4)
      in (self, os\<lparr>environ := e5\<rparr>, l2))"

text \<open>
  \<^verbatim>\<open>save\<close> (lines 319 to 329).  The loader is created on first use and kept in the
  private attribute; the dump is of \<^verbatim>\<open>model_dump()\<close>, the fields of the object.
\<close>

definition save ::
  "reGenBridgeData \<Rightarrow> string \<Rightarrow> os_state \<Rightarrow> unit outcome \<times> reGenBridgeData \<times> os_state" where
  "save self file_path os =
     (let self1 = (if private_yaml_loader self = None then self\<lparr>private_yaml_loader := Some YAML\<rparr> else self)
      in if file_path \<in> denied os then (Raises OSError, self1, os)
         else (Returns (), self1, os\<lparr>files := (files os)(file_path \<mapsto> YamlDump self1)\<rparr>))"

text \<open>
  Two objects agree on every field of the model; the private attributes, which are not
  fields, are left out of the comparison.
\<close>

definition same_fields :: "reGenBridgeData \<Rightarrow> reGenBridgeData \<Rightarrow> bool" where
  "same_fields a b =
     (a\<lparr>private_loaded_from_env_vars := private_loaded_from_env_vars b,
        private_yaml_loader := private_yaml_loader b\<rparr> = b)"


section \<open>The entry points of the worker processes\<close>

text \<open>
  Source: \<^verbatim>\<open>horde_worker_regen/process_management/worker_entry_points.py\<close>.

  The handles a process is started with are shared objects; each is identified by a
  number, so that two handles are the same object exactly when they are equal.
\<close>

datatype ProcessQueue = ProcessQueue nat
datatype Connection = Connection nat
datatype Semaphore = Semaphore nat
datatype Lock = Lock nat

text \<open>
  The two worker classes are defined in modules of their own.  An object of either class is
  represented by the keyword arguments its constructor is called with, in the order the
  entry points pass them.
\<close>

datatype worker_process =
    HordeInferenceProcess int ProcessQueue Connection Semaphore Lock
  | HordeSafetyProcess int ProcessQueue Connection Lock bool

fun inference_semaphore_of :: "worker_process \<Rightarrow> Semaphore option" where
  "inference_semaphore_of (HordeInferenceProcess process_id process_message_queue pipe_connection inference_semaphore disk_lock) =
     Some inference_semaphore"
| "inference_semaphore_of (HordeSafetyProcess process_id process_message_queue pipe_connection disk_lock cpu_only) = None"

fun disk_lock_of :: "worker_process \<Rightarrow> Lock" where
  "disk_lock_of (HordeInferenceProcess process_id process_message_queue pipe_connection inference_semaphore disk_lock) =
     disk_lock"
| "disk_lock_of (HordeSafetyProcess process_id process_message_queue pipe_connection disk_lock cpu_only) = disk_lock"

fun cpu_only_of :: "worker_process \<Rightarrow> bool option" where
  "cpu_only_of (HordeInferenceProcess process_id process_message_queue pipe_connection inference_semaphore disk_lock) = None"
| "cpu_only_of (HordeSafetyProcess process_id process_message_queue pipe_connection disk_lock cpu_only) = Some cpu_only"

text \<open>\<^verbatim>\<open>sys.stdout\<close> and \<^verbatim>\<open>sys.stderr\<close>; \<open>None\<close> is Python's \<^verbatim>\<open>None\<close>.\<close>

datatype stream = Stream nat

record py_sys =
  stdout :: "stream option"
  stderr :: "stream option"

text \<open>
  \<^verbatim>\<open>with logger.catch():\<close> around a block that ended as \<open>body\<close>.  With no arguments,
  loguru's \<^verbatim>\<open>catch\<close> has \<^verbatim>\<open>exception=Exception\<close> and \<^verbatim>\<open>reraise=False\<close>: on leaving the block
  with an exception that is an instance of \<^verbatim>\<open>Exception\<close> it logs the exception at level
  ERROR and suppresses it; any other exception passes through.
\<close>

definition logger_catch :: "unit outcome \<Rightarrow> unit outcome \<times> log_record list" where
  "logger_catch body =
     (case body of
        Returns u \<Rightarrow> (Returns u, [])
      | Raises e \<Rightarrow>
          if is_Exception e
          then (Returns (), [(ERROR, ''An error has been caught in function '{record[function]}', process '{record[process].name}' ''
                 @ ''({record[process].id}), thread '{record[thread].name}' ({record[thread].id}):'', [])])
          else (Raises e, []))"

text \<open>
  What a call of an entry point did: how it ended, the worker object it constructed, the
  streams of the process afterwards, and the log.
\<close>

record entry_result =
  ended :: "unit outcome"
  constructed :: worker_process
  sys_after :: py_sys
  logged :: "log_record list"

text \<open>
  The body of both entry points after the construction (lines 30 to 31 and 48 to 49).  The
  parameter \<open>main_loop\<close> is the method of the worker classes: how a run of the loop ends
  for a given object, under the streams it runs with.  The three context managers are
  entered left to right and left in reverse; the redirections put back the streams they
  found, whether the block returned or raised.
\<close>

definition run_main_loop ::
  "(worker_process \<Rightarrow> py_sys \<Rightarrow> unit outcome) \<Rightarrow> py_sys \<Rightarrow> worker_process \<Rightarrow> entry_result" where
  "run_main_loop main_loop sys worker_process =
     (let body = main_loop worker_process (sys\<lparr>stdout := None, stderr := None\<rparr>);
          (r, l) = logger_catch body
      in \<lparr>ended = r, constructed = worker_process, sys_after = sys, logged = l\<rparr>)"

text \<open>\<^verbatim>\<open>start_inference_process\<close> (lines 16 to 31).\<close>

definition start_inference_process ::
  "(worker_process \<Rightarrow> py_sys \<Rightarrow> unit outcome) \<Rightarrow> py_sys \<Rightarrow>
     int \<Rightarrow> ProcessQueue \<Rightarrow> Connection \<Rightarrow> Semaphore \<Rightarrow> Lock \<Rightarrow> entry_result" where
  "start_inference_process main_loop sys process_id process_message_queue pipe_connection inference_semaphore disk_lock =
     (let worker_process =
            HordeInferenceProcess process_id process_message_queue pipe_connection inference_semaphore disk_lock
      in run_main_loop main_loop sys worker_process)"

text \<open>
  \<^verbatim>\<open>start_safety_process\<close> (lines 34 to 49).  The last parameter has the default \<^verbatim>\<open>True\<close>;
  \<open>None\<close> is a call that leaves it out.
\<close>

definition start_safety_process ::
  "(worker_process \<Rightarrow> py_sys \<Rightarrow> unit outcome) \<Rightarrow> py_sys \<Rightarrow>
     int \<Rightarrow> ProcessQueue \<Rightarrow> Connection \<Rightarrow> Lock \<Rightarrow> bool option \<Rightarrow> entry_result" where
  "start_safety_process main_loop sys process_id process_message_queue pipe_connection disk_lock cpu_only_arg =
     (let cpu_only = (case cpu_only_arg of None \<Rightarrow> True | Some b \<Rightarrow> b);
          worker_process =
            HordeSafetyProcess process_id process_message_queue pipe_connection disk_lock cpu_only
      in run_main_loop main_loop sys worker_process)"

section \<open>Concrete configurations\<close>

text \<open>
  Values for the inherited fields and for \<^verbatim>\<open>TOTAL_LORA_DOWNLOAD_TIMEOUT\<close>, used where a
  property is evaluated on an input; no property depends on the values chosen.
\<close>

definition example_base :: CombinedHordeBridgeData where
  "example_base =
     \<lparr>max_threads = 1, queue_size = 1, extra_slow_worker = False,
      models_folder_parent = ''./models'', horde_url = ''https://aihorde.net/api/'',
      max_lora_cache_size = 10, dreamer_worker_name = ''An Awesome Dreamer''\<rparr>"

definition example_config :: reGenBridgeData where
  "example_config = model_defaults example_base 1800"

text \<open>A main loop that is interrupted, and one that fails with an ordinary exception.\<close>

definition interrupted_main_loop :: "worker_process \<Rightarrow> py_sys \<Rightarrow> unit outcome" where
  "interrupted_main_loop worker_process sys = Raises KeyboardInterrupt"

definition failing_main_loop :: "worker_process \<Rightarrow> py_sys \<Rightarrow> unit outcome" where
  "failing_main_loop worker_process sys = Raises (ExceptionSubclass ''RuntimeError'')"

definition example_sys :: py_sys where
  "example_sys = \<lparr>stdout = Some (Stream 1), stderr = Some (Stream 2)\<rparr>"

text \<open>A base class none of whose field checks fails.\<close>

definition no_inherited_errors :: "reGenBridgeData \<Rightarrow> string list" where
  "no_inherited_errors v = []"

definition example_os :: os_state where
  "example_os = \<lparr>environ = Map.empty, cwd = ''/home/worker'', files = Map.empty, denied = {}\<rparr>"

section \<open>Properties of the model validator\<close>

subsection \<open>The object each block returns\<close>

lemma validate_performance_modes_fst:
  "fst (validate_performance_modes self) =
     fst (high_memory_checks (fst (very_high_memory_implies_high (fst (extra_slow_worker_overrides
       (fst (limit_process_timeout (fst (limit_queue_size self)))))))))"
  by (simp add: validate_performance_modes_def split: prod.splits)

lemma validate_performance_modes_snd:
  "snd (validate_performance_modes self) =
     snd (limit_queue_size self)
     @ snd (limit_process_timeout (fst (limit_queue_size self)))
     @ snd (extra_slow_worker_overrides (fst (limit_process_timeout (fst (limit_queue_size self)))))
     @ snd (very_high_memory_implies_high (fst (extra_slow_worker_overrides
         (fst (limit_process_timeout (fst (limit_queue_size self)))))))
     @ snd (high_memory_checks (fst (very_high_memory_implies_high (fst (extra_slow_worker_overrides
         (fst (limit_process_timeout (fst (limit_queue_size self)))))))))"
  by (simp add: validate_performance_modes_def split: prod.splits)

lemma fst_limit_queue_size:
  "fst (limit_queue_size s) =
     s\<lparr>queue_size := (if max_threads s \<ge> 2 \<and> queue_size s > 3 then 3 else queue_size s)\<rparr>"
  by (simp add: limit_queue_size_def)

lemma fst_limit_process_timeout:
  "fst (limit_process_timeout s) =
     s\<lparr>process_timeout := (if high_performance_mode s then 100
                            else if moderate_performance_mode s then 150 else process_timeout s)\<rparr>"
  by (simp add: limit_process_timeout_def default_process_timeout_def)

lemma fst_extra_slow_worker_overrides:
  "fst (extra_slow_worker_overrides s) =
     s\<lparr>high_performance_mode := high_performance_mode s \<and> \<not> extra_slow_worker s,
       moderate_performance_mode := moderate_performance_mode s \<and> \<not> extra_slow_worker s,
       high_memory_mode := high_memory_mode s \<and> \<not> extra_slow_worker s,
       very_high_memory_mode := very_high_memory_mode s \<and> \<not> extra_slow_worker s,
       queue_size := (if extra_slow_worker s \<and> queue_size s > 0 then 0 else queue_size s),
       max_threads := (if extra_slow_worker s \<and> max_threads s > 1 then 1 else max_threads s),
       preload_timeout := (if extra_slow_worker s \<and> preload_timeout s < 120 then 120 else preload_timeout s)\<rparr>"
  by (simp add: extra_slow_worker_overrides_def)

lemma fst_very_high_memory_implies_high:
  "fst (very_high_memory_implies_high s) =
     s\<lparr>high_memory_mode :=
         (if very_high_memory_mode s \<and> \<not> high_memory_mode s then True else high_memory_mode s)\<rparr>"
  by (simp add: very_high_memory_implies_high_def)

lemma fst_high_memory_checks:
  "fst (high_memory_checks s) =
     s\<lparr>cycle_process_on_model_change :=
         (if high_memory_mode s \<and> cycle_process_on_model_change s then False
          else cycle_process_on_model_change s)\<rparr>"
  by (simp add: high_memory_checks_def)

lemmas fst_blocks = validate_performance_modes_fst fst_limit_queue_size fst_limit_process_timeout
  fst_extra_slow_worker_overrides fst_very_high_memory_implies_high fst_high_memory_checks

subsection \<open>The fields after validation\<close>

lemma validated_queue_size:
  "queue_size (fst (validate_performance_modes s)) =
     (if extra_slow_worker s \<and> (max_threads s \<ge> 2 \<or> queue_size s > 0) \<and> queue_size s > 0 then 0
      else if max_threads s \<ge> 2 \<and> queue_size s > 3 then 3 else queue_size s)"
  by (simp add: fst_blocks)

lemma validated_max_threads:
  "max_threads (fst (validate_performance_modes s)) =
     (if extra_slow_worker s \<and> max_threads s > 1 then 1 else max_threads s)"
  by (simp add: fst_blocks)

lemma validated_extra_slow_worker:
  "extra_slow_worker (fst (validate_performance_modes s)) = extra_slow_worker s"
  by (simp add: fst_blocks)

lemma validated_process_timeout:
  "process_timeout (fst (validate_performance_modes s)) =
     (if high_performance_mode s then 100
      else if moderate_performance_mode s then 150 else process_timeout s)"
  by (simp add: fst_blocks)

lemma validated_preload_timeout:
  "preload_timeout (fst (validate_performance_modes s)) =
     (if extra_slow_worker s \<and> preload_timeout s < 120 then 120 else preload_timeout s)"
  by (simp add: fst_blocks)

lemma validated_high_performance_mode:
  "high_performance_mode (fst (validate_performance_modes s)) =
     (high_performance_mode s \<and> \<not> extra_slow_worker s)"
  by (simp add: fst_blocks)

lemma validated_moderate_performance_mode:
  "moderate_performance_mode (fst (validate_performance_modes s)) =
     (moderate_performance_mode s \<and> \<not> extra_slow_worker s)"
  by (simp add: fst_blocks)

lemma validated_very_high_memory_mode:
  "very_high_memory_mode (fst (validate_performance_modes s)) =
     (very_high_memory_mode s \<and> \<not> extra_slow_worker s)"
  by (simp add: fst_blocks)

lemma validated_high_memory_mode:
  "high_memory_mode (fst (validate_performance_modes s)) =
     ((high_memory_mode s \<or> very_high_memory_mode s) \<and> \<not> extra_slow_worker s)"
  by (auto simp add: fst_blocks)

lemma validated_cycle_process_on_model_change:
  "cycle_process_on_model_change (fst (validate_performance_modes s)) =
     (cycle_process_on_model_change s \<and>
      \<not> ((high_memory_mode s \<or> very_high_memory_mode s) \<and> \<not> extra_slow_worker s))"
  by (auto simp add: fst_blocks)

lemma validated_safety_on_gpu:
  "safety_on_gpu (fst (validate_performance_modes s)) = safety_on_gpu s"
  by (simp add: fst_blocks)

lemma validated_exit_on_unhandled_faults:
  "exit_on_unhandled_faults (fst (validate_performance_modes s)) = exit_on_unhandled_faults s"
  by (simp add: fst_blocks)

lemmas validated_fields = validated_extra_slow_worker validated_queue_size validated_max_threads validated_process_timeout
  validated_preload_timeout validated_high_performance_mode validated_moderate_performance_mode
  validated_very_high_memory_mode validated_high_memory_mode validated_cycle_process_on_model_change

lemma validated_frame:
  "fst (validate_performance_modes s) =
     s\<lparr>queue_size := queue_size (fst (validate_performance_modes s)),
       process_timeout := process_timeout (fst (validate_performance_modes s)),
       high_performance_mode := high_performance_mode (fst (validate_performance_modes s)),
       moderate_performance_mode := moderate_performance_mode (fst (validate_performance_modes s)),
       high_memory_mode := high_memory_mode (fst (validate_performance_modes s)),
       very_high_memory_mode := very_high_memory_mode (fst (validate_performance_modes s)),
       max_threads := max_threads (fst (validate_performance_modes s)),
       preload_timeout := preload_timeout (fst (validate_performance_modes s)),
       cycle_process_on_model_change :=
         cycle_process_on_model_change (fst (validate_performance_modes s))\<rparr>"
  by (simp only: fst_blocks) simp

lemma settled_fixpoint:
  assumes "settled r"
  shows "fst (validate_performance_modes r) = r"
proof -
  have "queue_size (fst (validate_performance_modes r)) = queue_size r"
    using assms by (auto simp: validated_queue_size settled_def)
  moreover have "max_threads (fst (validate_performance_modes r)) = max_threads r"
    using assms by (auto simp: validated_max_threads settled_def)
  moreover have "process_timeout (fst (validate_performance_modes r)) = process_timeout r"
    using assms by (auto simp: validated_process_timeout settled_def)
  moreover have "preload_timeout (fst (validate_performance_modes r)) = preload_timeout r"
    using assms by (auto simp: validated_preload_timeout settled_def)
  moreover have "high_performance_mode (fst (validate_performance_modes r)) = high_performance_mode r"
    using assms by (auto simp: validated_high_performance_mode settled_def)
  moreover have "moderate_performance_mode (fst (validate_performance_modes r)) = moderate_performance_mode r"
    using assms by (auto simp: validated_moderate_performance_mode settled_def)
  moreover have "very_high_memory_mode (fst (validate_performance_modes r)) = very_high_memory_mode r"
    using assms by (auto simp: validated_very_high_memory_mode settled_def)
  moreover have "high_memory_mode (fst (validate_performance_modes r)) = high_memory_mode r"
    using assms by (auto simp: validated_high_memory_mode settled_def)
  moreover have "cycle_process_on_model_change (fst (validate_performance_modes r)) =
      cycle_process_on_model_change r"
    using assms by (auto simp: validated_cycle_process_on_model_change settled_def)
  ultimately show ?thesis
    by (subst validated_frame) simp
qed

lemma validated_settled: "settled (fst (validate_performance_modes s))"
  unfolding settled_def by (simp only: validated_fields) auto

subsection \<open>Evaluation on concrete configurations\<close>

lemmas example_defs = example_config_def model_defaults_def example_base_def

lemma process_timeout_log:
  "snd (limit_process_timeout (fst (limit_queue_size s))) =
     (if high_performance_mode s then
        [(if process_timeout s = default_process_timeout then DEBUG else WARNING,
          ''High performance mode is enabled, so the process_timeout value has ''
          @ ''been set to 1/3 of the default value. The new value is {}.'',
          [ArgInt (process_timeout s)])]
      else if moderate_performance_mode s then
        [(if process_timeout s = default_process_timeout then DEBUG else WARNING,
          ''Moderate performance mode is enabled, so the process_timeout value has ''
          @ ''been set to 1/2 of the default value. The new value is {}.'',
          [ArgInt (process_timeout s)])]
      else [])"
  by (simp add: limit_process_timeout_def fst_limit_queue_size Let_def)

section \<open>Properties of the entry points\<close>

lemma ended_run_main_loop:
  "ended (run_main_loop main_loop sys w) =
     fst (logger_catch (main_loop w (sys\<lparr>stdout := None, stderr := None\<rparr>)))"
  by (simp add: run_main_loop_def split: prod.splits)

lemma constructed_run_main_loop: "constructed (run_main_loop main_loop sys w) = w"
  by (simp add: run_main_loop_def split: prod.splits)

lemma logger_catch_Raises:
  "fst (logger_catch (Raises e)) = (if is_Exception e then Returns () else Raises e)"
  by (simp add: logger_catch_def)

section \<open>Properties of construction\<close>

lemma model_validate_fails:
  "inherited_errors v @ field_errors v \<noteq> [] \<Longrightarrow>
     model_validate inherited_errors env v = Inl (ValidationError (inherited_errors v @ field_errors v))"
  by (simp add: model_validate_def Let_def split: prod.splits)

lemma model_validate_succeeds:
  "inherited_errors v @ field_errors v = [] \<Longrightarrow>
     model_validate inherited_errors env v =
       Inr (fst (validate_performance_modes
                  (v\<lparr>dreamer_worker_name := fst (validate_dreamer_worker_name env (dreamer_worker_name v))\<rparr>)),
            snd (validate_dreamer_worker_name env (dreamer_worker_name v))
            @ snd (validate_performance_modes
                  (v\<lparr>dreamer_worker_name := fst (validate_dreamer_worker_name env (dreamer_worker_name v))\<rparr>)))"
  by (simp add: model_validate_def Let_def split: prod.splits)

lemma field_errors_timeouts:
  "set (field_errors v) \<inter> {''post_process_timeout'', ''preload_timeout'', ''inference_step_timeout''} = {}
     \<longleftrightarrow> post_process_timeout v \<ge> 15 \<and> preload_timeout v \<ge> 15
         \<and> 15 \<le> inference_step_timeout v \<and> inference_step_timeout v \<le> 30"
  by (auto simp: field_errors_def)

lemma field_errors_process_timeout: "''process_timeout'' \<notin> set (field_errors v)"
  by (simp add: field_errors_def)

lemma field_errors_Nil:
  "field_errors v = [] \<longleftrightarrow>
     post_process_timeout v \<ge> 15 \<and> preload_timeout v \<ge> 15
     \<and> 15 \<le> inference_step_timeout v \<and> inference_step_timeout v \<le> 30
     \<and> 0 \<le> minutes_allowed_without_jobs v \<and> minutes_allowed_without_jobs v < 3600
     \<and> 0 \<le> horde_model_stickiness v \<and> horde_model_stickiness v \<le> 1"
  by (auto simp: field_errors_def)

section \<open>Properties of the methods\<close>

lemma fst_snd_if: "fst (snd (if c then a else b)) = (if c then fst (snd a) else fst (snd b))"
  by simp

lemma load_env_vars_self: "fst (load_env_vars self os) = self"
  unfolding load_env_vars_def Let_def case_prod_beta by (rule fst_conv)

lemma prepare_custom_models_self: "fst (snd (prepare_custom_models self os)) = self"
  unfolding prepare_custom_models_def Let_def case_prod_beta
  by (simp only: fst_snd_if fst_conv snd_conv if_cancel)

lemma save_self:
  "fst (snd (save self file_path os)) =
     (if private_yaml_loader self = None then self\<lparr>private_yaml_loader := Some YAML\<rparr> else self)"
  unfolding save_def Let_def
  by (simp only: fst_snd_if fst_conv snd_conv if_cancel)

lemma same_fields_refl: "same_fields a a"
  by (simp add: same_fields_def)

lemma same_fields_yaml_loader: "same_fields (a\<lparr>private_yaml_loader := y\<rparr>) a"
  by (simp add: same_fields_def)

text \<open>The methods run on a concrete configuration and operating system state.\<close>

lemma str_int_example: "str_int (10 * 1024) = ''10240''"
  by (simp add: str_int_def str_nat.simps)

lemma load_env_vars_example:
  "environ (fst (snd (load_env_vars example_config example_os))) ''AIWORKER_LORA_CACHE_SIZE'' = Some ''10240''
   \<and> environ (fst (snd (load_env_vars example_config example_os))) ''AI_HORDE_URL'' = Some ''https://aihorde.net/api/''
   \<and> environ (fst (snd (load_env_vars example_config example_os))) ''CIVIT_API_TOKEN'' = None"
  by (simp add: load_env_vars_def Let_def example_defs example_os_def getenv_truthy_def
        str_int_def str_nat.simps)

lemma save_example:
  "save example_config ''bridgeData.yaml'' example_os =
     (Returns (), example_config\<lparr>private_yaml_loader := Some YAML\<rparr>,
      example_os\<lparr>files := [''bridgeData.yaml'' \<mapsto> YamlDump (example_config\<lparr>private_yaml_loader := Some YAML\<rparr>)]\<rparr>)"
  by (simp add: save_def Let_def example_defs example_os_def)

lemma prepare_custom_models_example:
  "prepare_custom_models
     (example_config\<lparr>custom_models :=
        [[(''name'', ''mine''), (''baseline'', ''stable_diffusion_xl''), (''filepath'', ''/m/mine.safetensors'')],
         [(''name'', ''broken'')]]\<rparr>) example_os =
   (Returns (),
    example_config\<lparr>custom_models :=
        [[(''name'', ''mine''), (''baseline'', ''stable_diffusion_xl''), (''filepath'', ''/m/mine.safetensors'')],
         [(''name'', ''broken'')]]\<rparr>,
    example_os\<lparr>files := [''/home/worker/custom_models.json'' \<mapsto>
                   JsonDump [(''mine'', CustomModelReference ''mine'' ''stable_diffusion_xl'' ''ckpt'' [''/m/mine.safetensors''])]],
               environ := [''HORDELIB_CUSTOM_MODELS'' \<mapsto> ''/home/worker/custom_models.json'']\<rparr>,
    [(WARNING, ''Model baseline not specified for custom model entry {}. Skipping'', [ArgModel [(''name'', ''broken'')]])])"
  by (simp add: prepare_custom_models_def Let_def example_defs example_os_def getenv_truthy_def)

section \<open>The claims about the model validator\<close>

text \<open>
  C1 (as amended).  For every configuration with \<^verbatim>\<open>max_threads >= 2\<close>, on input or on
  output, the validated \<^verbatim>\<open>queue_size\<close> is at most 3.  For an input with \<^verbatim>\<open>max_threads = 2\<close>
  and \<^verbatim>\<open>queue_size = 3\<close> the validator leaves \<^verbatim>\<open>queue_size\<close> at exactly 3 when
  \<^verbatim>\<open>extra_slow_worker\<close> is false; when it is true the later block (lines 178 to 179) sets the
  queue size to 0.
\<close>

theorem queue_size_limit_with_two_threads:
  "(max_threads self \<ge> 2 \<or> max_threads (fst (validate_performance_modes self)) \<ge> 2 \<longrightarrow>
      queue_size (fst (validate_performance_modes self)) \<le> 3)
   \<and> (max_threads self = 2 \<and> queue_size self = 3 \<longrightarrow>
      queue_size (fst (validate_performance_modes self)) = (if extra_slow_worker self then 0 else 3))"
  by (auto simp: validated_queue_size validated_max_threads split: if_splits)

theorem queue_size_limit_with_two_threads_witness:
  "max_threads (example_config\<lparr>max_threads := 2, queue_size := 3\<rparr>) \<ge> 2
   \<and> max_threads (example_config\<lparr>max_threads := 2, queue_size := 3\<rparr>) = 2
   \<and> queue_size (example_config\<lparr>max_threads := 2, queue_size := 3\<rparr>) = 3
   \<and> queue_size (fst (validate_performance_modes (example_config\<lparr>max_threads := 2, queue_size := 3\<rparr>))) \<le> 3
   \<and> queue_size (fst (validate_performance_modes (example_config\<lparr>max_threads := 2, queue_size := 3\<rparr>))) = 3"
  using queue_size_limit_with_two_threads [of "example_config\<lparr>max_threads := 2, queue_size := 3\<rparr>"]
  by (simp add: example_defs)

text \<open>
  C1 as stated fails: with \<^verbatim>\<open>extra_slow_worker\<close> set, the input \<^verbatim>\<open>max_threads = 2\<close>,
  \<^verbatim>\<open>queue_size = 3\<close> comes out with \<^verbatim>\<open>queue_size = 0\<close>.
\<close>

theorem queue_size_boundary_counterexample:
  "max_threads (example_config\<lparr>max_threads := 2, queue_size := 3, extra_slow_worker := True\<rparr>) = 2
   \<and> queue_size (example_config\<lparr>max_threads := 2, queue_size := 3, extra_slow_worker := True\<rparr>) = 3
   \<and> queue_size (fst (validate_performance_modes
         (example_config\<lparr>max_threads := 2, queue_size := 3, extra_slow_worker := True\<rparr>))) = 0"
  by (simp add: validated_queue_size example_defs)

text \<open>
  C8 (as amended).  With \<^verbatim>\<open>high_performance_mode\<close> true and \<^verbatim>\<open>extra_slow_worker\<close> false the
  validated \<^verbatim>\<open>process_timeout\<close> is exactly 100, the default 300 floor-divided by 3; with
  \<^verbatim>\<open>moderate_performance_mode\<close> true and \<^verbatim>\<open>high_performance_mode\<close> false it is exactly 150;
  both whatever \<^verbatim>\<open>process_timeout\<close> the input had.  The input value is not discarded
  silently: whenever either mode is active, the block that assigns \<^verbatim>\<open>process_timeout\<close> writes
  a log record, at level WARNING when the input value differs from the default and at level
  DEBUG when it is the default.
\<close>

theorem process_timeout_of_performance_modes:
  "(high_performance_mode self \<and> \<not> extra_slow_worker self \<longrightarrow>
      process_timeout (fst (validate_performance_modes self)) = default_process_timeout div 3
      \<and> process_timeout (fst (validate_performance_modes self)) = 100)
   \<and> (moderate_performance_mode self \<and> \<not> high_performance_mode self \<longrightarrow>
      process_timeout (fst (validate_performance_modes self)) = 150)
   \<and> ((high_performance_mode self \<or> moderate_performance_mode self) \<longrightarrow>
      (\<exists>m a. snd (limit_process_timeout (fst (limit_queue_size self))) =
               [(if process_timeout self = default_process_timeout then DEBUG else WARNING, m, a)]
             \<and> (if process_timeout self = default_process_timeout then DEBUG else WARNING, m, a)
                 \<in> set (snd (validate_performance_modes self))))"
proof (intro conjI impI)
  assume "high_performance_mode self \<or> moderate_performance_mode self"
  then show "\<exists>m a. snd (limit_process_timeout (fst (limit_queue_size self))) =
               [(if process_timeout self = default_process_timeout then DEBUG else WARNING, m, a)]
             \<and> (if process_timeout self = default_process_timeout then DEBUG else WARNING, m, a)
                 \<in> set (snd (validate_performance_modes self))"
    by (auto simp: validate_performance_modes_snd process_timeout_log)
qed (simp_all add: validated_process_timeout default_process_timeout_def)

theorem process_timeout_of_performance_modes_witness:
  "high_performance_mode (example_config\<lparr>process_timeout := 500\<rparr>)
   \<and> \<not> extra_slow_worker (example_config\<lparr>process_timeout := 500\<rparr>)
   \<and> process_timeout (fst (validate_performance_modes (example_config\<lparr>process_timeout := 500\<rparr>))) = 100
   \<and> moderate_performance_mode (example_config\<lparr>moderate_performance_mode := True, high_performance_mode := False\<rparr>)
   \<and> \<not> high_performance_mode (example_config\<lparr>moderate_performance_mode := True, high_performance_mode := False\<rparr>)
   \<and> process_timeout (fst (validate_performance_modes
         (example_config\<lparr>moderate_performance_mode := True, high_performance_mode := False\<rparr>))) = 150
   \<and> (\<exists>m a. (WARNING, m, a)
         \<in> set (snd (validate_performance_modes (example_config\<lparr>process_timeout := 500\<rparr>))))"
proof -
  have high: "high_performance_mode (example_config\<lparr>process_timeout := 500\<rparr>)
      \<and> \<not> extra_slow_worker (example_config\<lparr>process_timeout := 500\<rparr>)
      \<and> process_timeout (example_config\<lparr>process_timeout := 500\<rparr>) \<noteq> default_process_timeout"
    by (simp add: example_defs default_process_timeout_def)
  have moderate:
    "moderate_performance_mode (example_config\<lparr>moderate_performance_mode := True, high_performance_mode := False\<rparr>)
     \<and> \<not> high_performance_mode (example_config\<lparr>moderate_performance_mode := True, high_performance_mode := False\<rparr>)"
    by (simp add: example_defs)
  from high process_timeout_of_performance_modes [of "example_config\<lparr>process_timeout := 500\<rparr>"]
  have "process_timeout (fst (validate_performance_modes (example_config\<lparr>process_timeout := 500\<rparr>))) = 100
      \<and> (\<exists>m a. (WARNING, m, a)
            \<in> set (snd (validate_performance_modes (example_config\<lparr>process_timeout := 500\<rparr>))))"
    by auto
  moreover from moderate process_timeout_of_performance_modes
      [of "example_config\<lparr>moderate_performance_mode := True, high_performance_mode := False\<rparr>"]
  have "process_timeout (fst (validate_performance_modes
         (example_config\<lparr>moderate_performance_mode := True, high_performance_mode := False\<rparr>))) = 150"
    by blast
  ultimately show ?thesis using high moderate by blast
qed

text \<open>
  C8 as stated fails in its last sentence: on an input with \<^verbatim>\<open>process_timeout = 500\<close> and
  high performance mode, the value is replaced by 100 and the replacement is logged as a
  warning (line 140).
\<close>

theorem process_timeout_not_silent_counterexample:
  "high_performance_mode (example_config\<lparr>process_timeout := 500\<rparr>)
   \<and> process_timeout (example_config\<lparr>process_timeout := 500\<rparr>) = 500
   \<and> process_timeout (fst (validate_performance_modes (example_config\<lparr>process_timeout := 500\<rparr>))) = 100
   \<and> (WARNING,
       ''High performance mode is enabled, so the process_timeout value has been set to 1/3 of the default value. The new value is {}.'',
       [ArgInt 500]) \<in> set (snd (validate_performance_modes (example_config\<lparr>process_timeout := 500\<rparr>)))"
  by (simp add: validated_process_timeout validate_performance_modes_snd process_timeout_log
        example_defs default_process_timeout_def)

text \<open>
  C9.  The validator is idempotent: applied to a configuration that it has returned, it
  changes no field (and no private attribute either).
\<close>

theorem validate_performance_modes_idempotent:
  "fst (validate_performance_modes (fst (validate_performance_modes self))) =
     fst (validate_performance_modes self)"
  by (rule settled_fixpoint [OF validated_settled])

theorem validate_performance_modes_idempotent_witness:
  "fst (validate_performance_modes (fst (validate_performance_modes
      (example_config\<lparr>extra_slow_worker := True, max_threads := 4, queue_size := 4\<rparr>)))) =
   fst (validate_performance_modes (example_config\<lparr>extra_slow_worker := True, max_threads := 4, queue_size := 4\<rparr>))"
  by (rule validate_performance_modes_idempotent)




section \<open>The claims about the entry points\<close>

text \<open>
  C2 (as amended).  When the main loop raises an exception that is an instance of
  \<^verbatim>\<open>Exception\<close>, \<^verbatim>\<open>start_inference_process\<close> and \<^verbatim>\<open>start_safety_process\<close> catch it at
  their own boundary and return normally.  An exception outside \<^verbatim>\<open>Exception\<close>
  (\<^verbatim>\<open>KeyboardInterrupt\<close>, \<^verbatim>\<open>SystemExit\<close>, \<^verbatim>\<open>GeneratorExit\<close>, or another direct subclass of
  \<^verbatim>\<open>BaseException\<close>) is not caught by \<^verbatim>\<open>logger.catch()\<close> and leaves the entry point.
\<close>

theorem entry_points_catch_Exception:
  "(main_loop (HordeInferenceProcess process_id process_message_queue pipe_connection inference_semaphore disk_lock)
      (sys\<lparr>stdout := None, stderr := None\<rparr>) = Raises e \<longrightarrow>
    ended (start_inference_process main_loop sys process_id process_message_queue pipe_connection
             inference_semaphore disk_lock) =
      (if is_Exception e then Returns () else Raises e))
   \<and> (main_loop (HordeSafetyProcess process_id process_message_queue pipe_connection disk_lock
                     (case cpu_only_arg of None \<Rightarrow> True | Some b \<Rightarrow> b))
         (sys\<lparr>stdout := None, stderr := None\<rparr>) = Raises e \<longrightarrow>
       ended (start_safety_process main_loop sys process_id process_message_queue pipe_connection
                disk_lock cpu_only_arg) =
         (if is_Exception e then Returns () else Raises e))"
  by (simp add: start_inference_process_def start_safety_process_def ended_run_main_loop
        logger_catch_Raises)

theorem entry_points_catch_Exception_witness:
  "failing_main_loop (HordeInferenceProcess 0 (ProcessQueue 0) (Connection 0) (Semaphore 0) (Lock 0))
      (example_sys\<lparr>stdout := None, stderr := None\<rparr>) = Raises (ExceptionSubclass ''RuntimeError'')
   \<and> failing_main_loop (HordeSafetyProcess 0 (ProcessQueue 0) (Connection 0) (Lock 0) True)
      (example_sys\<lparr>stdout := None, stderr := None\<rparr>) = Raises (ExceptionSubclass ''RuntimeError'')
   \<and> ended (start_inference_process failing_main_loop example_sys 0 (ProcessQueue 0) (Connection 0)
              (Semaphore 0) (Lock 0)) = Returns ()
   \<and> ended (start_safety_process failing_main_loop example_sys 0 (ProcessQueue 0) (Connection 0)
              (Lock 0) (Some True)) = Returns ()"
  using entry_points_catch_Exception [where main_loop = failing_main_loop and process_id = 0
      and process_message_queue = "ProcessQueue 0" and pipe_connection = "Connection 0"
      and inference_semaphore = "Semaphore 0" and disk_lock = "Lock 0" and sys = example_sys
      and e = "ExceptionSubclass ''RuntimeError''" and cpu_only_arg = "Some True"]
  by (simp add: failing_main_loop_def)

text \<open>
  C2 as stated fails: a \<^verbatim>\<open>KeyboardInterrupt\<close> raised by the main loop propagates out of
  both entry points.
\<close>

theorem entry_point_interrupt_counterexample:
  "interrupted_main_loop (HordeInferenceProcess 0 (ProcessQueue 0) (Connection 0) (Semaphore 0) (Lock 0))
      (example_sys\<lparr>stdout := None, stderr := None\<rparr>) = Raises KeyboardInterrupt
   \<and> ended (start_inference_process interrupted_main_loop example_sys 0 (ProcessQueue 0) (Connection 0)
              (Semaphore 0) (Lock 0)) = Raises KeyboardInterrupt
   \<and> ended (start_safety_process interrupted_main_loop example_sys 1 (ProcessQueue 0) (Connection 1)
              (Lock 0) (Some True)) = Raises KeyboardInterrupt"
  by (simp add: start_inference_process_def start_safety_process_def ended_run_main_loop
        logger_catch_Raises interrupted_main_loop_def)

text \<open>
  C3.  The inference entry point constructs its worker with the inference semaphore and
  the disk lock it was given; the safety entry point, which has no semaphore parameter,
  constructs its worker with the disk lock only.  Started with the same lock, both kinds
  of worker hold that lock, and the safety worker holds no inference semaphore.
\<close>

theorem workers_shared_handles:
  "constructed (start_inference_process main_loop sys process_id process_message_queue pipe_connection
       inference_semaphore disk_lock) =
     HordeInferenceProcess process_id process_message_queue pipe_connection inference_semaphore disk_lock
   \<and> inference_semaphore_of (constructed (start_inference_process main_loop sys process_id
        process_message_queue pipe_connection inference_semaphore disk_lock)) = Some inference_semaphore
   \<and> disk_lock_of (constructed (start_inference_process main_loop sys process_id
        process_message_queue pipe_connection inference_semaphore disk_lock)) = disk_lock
   \<and> inference_semaphore_of (constructed (start_safety_process main_loop' sys' process_id'
        process_message_queue' pipe_connection' disk_lock cpu_only_arg)) = None
   \<and> disk_lock_of (constructed (start_safety_process main_loop' sys' process_id'
        process_message_queue' pipe_connection' disk_lock cpu_only_arg)) = disk_lock"
  by (simp add: start_inference_process_def start_safety_process_def constructed_run_main_loop)

text \<open>
  C4.  \<^verbatim>\<open>start_safety_process\<close> forwards its \<^verbatim>\<open>cpu_only\<close> argument to the safety process it
  constructs, and \<^verbatim>\<open>True\<close> when the argument is left out.  The field \<^verbatim>\<open>safety_on_gpu\<close>
  defaults to \<^verbatim>\<open>False\<close> and validation keeps it, so with all defaults the safety process
  is constructed CPU-only, whether the caller leaves \<^verbatim>\<open>cpu_only\<close> out or passes the negation
  of \<^verbatim>\<open>safety_on_gpu\<close>.
\<close>

theorem safety_execution_target:
  "cpu_only_of (constructed (start_safety_process main_loop sys process_id process_message_queue
       pipe_connection disk_lock (Some cpu_only))) = Some cpu_only
   \<and> cpu_only_of (constructed (start_safety_process main_loop sys process_id process_message_queue
       pipe_connection disk_lock None)) = Some True
   \<and> safety_on_gpu (model_defaults base TOTAL_LORA_DOWNLOAD_TIMEOUT) = False
   \<and> safety_on_gpu (fst (validate_performance_modes (model_defaults base TOTAL_LORA_DOWNLOAD_TIMEOUT))) = False
   \<and> cpu_only_of (constructed (start_safety_process main_loop sys process_id process_message_queue
       pipe_connection disk_lock
       (Some (\<not> safety_on_gpu (fst (validate_performance_modes
                 (model_defaults base TOTAL_LORA_DOWNLOAD_TIMEOUT))))))) = Some True"
  by (simp add: start_safety_process_def constructed_run_main_loop validated_safety_on_gpu
        model_defaults_def)

section \<open>The claims about construction and the methods\<close>

text \<open>
  C6.  The settings carry the timeout fields \<^verbatim>\<open>preload_timeout\<close>, \<^verbatim>\<open>inference_step_timeout\<close>,
  \<^verbatim>\<open>post_process_timeout\<close> and \<^verbatim>\<open>process_timeout\<close>.  Construction fails with a validation
  error that names one of the first three whenever \<^verbatim>\<open>inference_step_timeout\<close> is below 15 or
  above 30, \<^verbatim>\<open>preload_timeout\<close> is below 15, or \<^verbatim>\<open>post_process_timeout\<close> is below 15.  On an
  input within these bounds none of the four fields is reported, and construction succeeds
  when the remaining field checks pass as well.
\<close>

theorem timeout_bounds_enforced:
  "(inference_step_timeout v < 15 \<or> inference_step_timeout v > 30
      \<or> preload_timeout v < 15 \<or> post_process_timeout v < 15 \<longrightarrow>
     (\<exists>errors. model_validate inherited_errors env v = Inl (ValidationError errors)
        \<and> set errors \<inter> {''post_process_timeout'', ''preload_timeout'', ''inference_step_timeout''} \<noteq> {}))
   \<and> (15 \<le> inference_step_timeout v \<and> inference_step_timeout v \<le> 30
        \<and> 15 \<le> preload_timeout v \<and> 15 \<le> post_process_timeout v \<longrightarrow>
      set (field_errors v) \<inter>
        {''post_process_timeout'', ''preload_timeout'', ''inference_step_timeout'', ''process_timeout''} = {}
      \<and> (inherited_errors v = [] \<and> 0 \<le> minutes_allowed_without_jobs v
           \<and> minutes_allowed_without_jobs v < 3600
           \<and> 0 \<le> horde_model_stickiness v \<and> horde_model_stickiness v \<le> 1 \<longrightarrow>
          (\<exists>self l. model_validate inherited_errors env v = Inr (self, l))))"
proof (intro conjI impI)
  assume bad: "inference_step_timeout v < 15 \<or> inference_step_timeout v > 30
      \<or> preload_timeout v < 15 \<or> post_process_timeout v < 15"
  then have ne: "set (field_errors v) \<inter>
      {''post_process_timeout'', ''preload_timeout'', ''inference_step_timeout''} \<noteq> {}"
    using field_errors_timeouts [of v] by auto
  then have "inherited_errors v @ field_errors v \<noteq> []" by auto
  then have "model_validate inherited_errors env v =
      Inl (ValidationError (inherited_errors v @ field_errors v))"
    by (rule model_validate_fails [of inherited_errors v env])
  moreover have "set (inherited_errors v @ field_errors v) \<inter>
      {''post_process_timeout'', ''preload_timeout'', ''inference_step_timeout''} \<noteq> {}"
    using ne by auto
  ultimately show "\<exists>errors. model_validate inherited_errors env v = Inl (ValidationError errors)
        \<and> set errors \<inter> {''post_process_timeout'', ''preload_timeout'', ''inference_step_timeout''} \<noteq> {}"
    by blast
next
  assume ok: "15 \<le> inference_step_timeout v \<and> inference_step_timeout v \<le> 30
        \<and> 15 \<le> preload_timeout v \<and> 15 \<le> post_process_timeout v"
  then have "set (field_errors v) \<inter>
      {''post_process_timeout'', ''preload_timeout'', ''inference_step_timeout''} = {}"
    using field_errors_timeouts [of v] by simp
  then show "set (field_errors v) \<inter>
      {''post_process_timeout'', ''preload_timeout'', ''inference_step_timeout'', ''process_timeout''} = {}"
    using field_errors_process_timeout [of v] by auto
  assume rest: "inherited_errors v = [] \<and> 0 \<le> minutes_allowed_without_jobs v
           \<and> minutes_allowed_without_jobs v < 3600
           \<and> 0 \<le> horde_model_stickiness v \<and> horde_model_stickiness v \<le> 1"
  with ok have "inherited_errors v @ field_errors v = []"
    by (simp add: field_errors_Nil)
  from model_validate_succeeds [of inherited_errors v env] this
  show "\<exists>self l. model_validate inherited_errors env v = Inr (self, l)"
    by blast
qed

theorem timeout_bounds_enforced_witness:
  "inference_step_timeout (example_config\<lparr>inference_step_timeout := 31\<rparr>) > 30
   \<and> (\<exists>errors. model_validate no_inherited_errors Map.empty
          (example_config\<lparr>inference_step_timeout := 31\<rparr>) = Inl (ValidationError errors))
   \<and> 15 \<le> inference_step_timeout example_config \<and> inference_step_timeout example_config \<le> 30
   \<and> 15 \<le> preload_timeout example_config \<and> 15 \<le> post_process_timeout example_config
   \<and> no_inherited_errors example_config = []
   \<and> 0 \<le> minutes_allowed_without_jobs example_config
   \<and> minutes_allowed_without_jobs example_config < 3600
   \<and> 0 \<le> horde_model_stickiness example_config \<and> horde_model_stickiness example_config \<le> 1
   \<and> (\<exists>self l. model_validate no_inherited_errors Map.empty example_config = Inr (self, l))"
proof -
  have bad: "inference_step_timeout (example_config\<lparr>inference_step_timeout := 31\<rparr>) > 30"
    by (simp add: example_defs)
  have ok: "15 \<le> inference_step_timeout example_config \<and> inference_step_timeout example_config \<le> 30
      \<and> 15 \<le> preload_timeout example_config \<and> 15 \<le> post_process_timeout example_config"
    by (simp add: example_defs)
  have rest: "no_inherited_errors example_config = []
      \<and> 0 \<le> minutes_allowed_without_jobs example_config
      \<and> minutes_allowed_without_jobs example_config < 3600
      \<and> 0 \<le> horde_model_stickiness example_config \<and> horde_model_stickiness example_config \<le> 1"
    by (simp add: example_defs no_inherited_errors_def)
  from bad timeout_bounds_enforced
      [of "example_config\<lparr>inference_step_timeout := 31\<rparr>" no_inherited_errors Map.empty]
  have "\<exists>errors. model_validate no_inherited_errors Map.empty
          (example_config\<lparr>inference_step_timeout := 31\<rparr>) = Inl (ValidationError errors)"
    by blast
  moreover from ok rest timeout_bounds_enforced [of example_config no_inherited_errors Map.empty]
  have "\<exists>self l. model_validate no_inherited_errors Map.empty example_config = Inr (self, l)"
    by blast
  ultimately show ?thesis using bad ok rest by blast
qed

text \<open>
  C7.  The fault policy is the boolean field \<^verbatim>\<open>exit_on_unhandled_faults\<close>.  Its default is
  \<^verbatim>\<open>False\<close>, and neither the validator nor construction changes it: a configuration built
  from the defaults has the flag off, which is the policy of attempting recovery.
\<close>

theorem exit_on_unhandled_faults_default:
  "exit_on_unhandled_faults (model_defaults base TOTAL_LORA_DOWNLOAD_TIMEOUT) = False
   \<and> exit_on_unhandled_faults (fst (validate_performance_modes self)) = exit_on_unhandled_faults self
   \<and> (model_validate inherited_errors env v = Inr (self', l) \<longrightarrow>
        exit_on_unhandled_faults self' = exit_on_unhandled_faults v)"
proof (intro conjI impI)
  assume ok: "model_validate inherited_errors env v = Inr (self', l)"
  have "inherited_errors v @ field_errors v = []"
  proof (rule ccontr)
    assume "inherited_errors v @ field_errors v \<noteq> []"
    from model_validate_fails [of inherited_errors v env] this ok show False by simp
  qed
  from model_validate_succeeds [of inherited_errors v env] this ok
  have "self' = fst (validate_performance_modes
        (v\<lparr>dreamer_worker_name := fst (validate_dreamer_worker_name env (dreamer_worker_name v))\<rparr>))"
    by simp
  then show "exit_on_unhandled_faults self' = exit_on_unhandled_faults v"
    by (simp add: validated_exit_on_unhandled_faults)
qed (simp_all add: model_defaults_def validated_exit_on_unhandled_faults)

theorem exit_on_unhandled_faults_default_witness:
  "(\<exists>self' l. model_validate no_inherited_errors Map.empty example_config = Inr (self', l)
       \<and> exit_on_unhandled_faults self' = False)"
proof -
  have "no_inherited_errors example_config @ field_errors example_config = []"
    by (simp add: no_inherited_errors_def field_errors_def example_defs)
  from model_validate_succeeds [of no_inherited_errors example_config Map.empty] this
  obtain self' l where ok: "model_validate no_inherited_errors Map.empty example_config = Inr (self', l)"
    by blast
  from exit_on_unhandled_faults_default [of example_base 1800 example_config no_inherited_errors Map.empty example_config self' l] ok
  have "exit_on_unhandled_faults self' = False"
    by (simp add: example_config_def)
  with ok show ?thesis by blast
qed

text \<open>
  C5.  \<^verbatim>\<open>load_env_vars\<close>, \<^verbatim>\<open>prepare_custom_models\<close> and \<^verbatim>\<open>save\<close> change no field of the
  settings object they are called on, whatever the state of the operating system.  (The
  first two return the object as it was; \<^verbatim>\<open>save\<close> may set the private attribute
  \<^verbatim>\<open>_yaml_loader\<close>, which is not a field.)
\<close>

theorem methods_change_no_field:
  "same_fields (fst (load_env_vars self os)) self
   \<and> same_fields (fst (snd (prepare_custom_models self os'))) self
   \<and> same_fields (fst (snd (save self file_path os''))) self"
  by (simp add: load_env_vars_self prepare_custom_models_self save_self same_fields_refl
        same_fields_yaml_loader)

end
